theory Spec2Isabelle
  imports Main
begin

section \<open>The table library, as far as the dashboard uses it\<close>

text \<open>
  \<^verbatim>\<open>dashboard.py\<close> is a thin program over a table library, a UI framework and a
  file watcher, none of which is part of the repository. The library calls the program
  makes are modelled here, once, with the reading of each call written next to it:

  \<^item> a spreadsheet cell is a whole number, a text, a timestamp (day number and time
    within the day), a calendar date (what \<^verbatim>\<open>.dt.date\<close> leaves) or blank (NaN / NaT);
    fractional numbers are not modelled, floating-point arithmetic is not embedded;
  \<^item> a table is the list of its columns in order, each a name with its cells;
    \<^verbatim>\<open>pd.DataFrame()\<close> is the table with no column;
  \<^item> \<^verbatim>\<open>df[name]\<close> raises \<^verbatim>\<open>KeyError\<close> when there is no such column;
  \<^item> a column of whole numbers only is an integer column, one of whole numbers and
    blanks a float column, any other an object column; \<^verbatim>\<open>sum\<close> and \<^verbatim>\<open>mean\<close> skip blanks,
    and raise \<^verbatim>\<open>TypeError\<close> on a selection that holds a text or a date (what the
    library makes of a selection of texts only, their concatenation, is not modelled:
    no property below is about such a column);
  \<^item> whole numbers are the mathematical integers: the 64-bit width of an integer
    column and the rounding of a float column are not modelled.
\<close>

type_synonym day = int

datatype cell = IntC int | TextC string | TsC day nat | DateC day | Blank

datatype pyerr =
    KeyError string
  | TypeError
  | FileNotFoundError string
  | ValueError

type_synonym frame = "(string \<times> cell list) list"

definition pd_DataFrame :: frame where
  "pd_DataFrame = []"

definition getitem :: "frame \<Rightarrow> string \<Rightarrow> pyerr + cell list" where
  "getitem df name = (case map_of df name of None \<Rightarrow> Inl (KeyError name) | Some col \<Rightarrow> Inr col)"

text \<open>\<^verbatim>\<open>df[name] = col\<close>: an existing column is replaced where it stands, a new one
  is added last.\<close>

fun setitem :: "frame \<Rightarrow> string \<Rightarrow> cell list \<Rightarrow> frame" where
  "setitem [] name col = [(name, col)]"
| "setitem ((k, v) # df) name col =
     (if k = name then (k, col) # df else (k, v) # setitem df name col)"

fun is_int :: "cell \<Rightarrow> bool" where
  "is_int (IntC n) = True"
| "is_int c = False"

fun cell_int :: "cell \<Rightarrow> int" where
  "cell_int (IntC n) = n"
| "cell_int c = 0"

definition numeric_or_blank :: "cell \<Rightarrow> bool" where
  "numeric_or_blank c = (is_int c \<or> c = Blank)"

datatype dtype = Int64 | Float64 | Object

definition dtype_of :: "cell list \<Rightarrow> dtype" where
  "dtype_of col =
     (if col = [] then Object
      else if list_all is_int col then Int64
      else if list_all numeric_or_blank col then Float64
      else Object)"

text \<open>A number the library hands back: an integer, or a float. The model's numbers are
  whole, so a float holds a whole number too; it prints with a trailing \<^verbatim>\<open>.0\<close>.\<close>

datatype pynum = PyInt int | PyFloat int

fun num_val :: "pynum \<Rightarrow> int" where
  "num_val (PyInt n) = n"
| "num_val (PyFloat n) = n"

fun mk_num :: "dtype \<Rightarrow> int \<Rightarrow> pynum" where
  "mk_num Float64 n = PyFloat n"
| "mk_num dt n = PyInt n"

text \<open>\<^verbatim>\<open>Series.sum()\<close> on a selection of a column of type \<open>dt\<close>.\<close>

definition series_sum :: "dtype \<Rightarrow> cell list \<Rightarrow> pyerr + pynum" where
  "series_sum dt xs =
     (if list_all numeric_or_blank xs then Inr (mk_num dt (sum_list (map cell_int xs)))
      else Inl TypeError)"

text \<open>A float result that is not computed here: not-a-number, the quotient of a total by
  a count, and that quotient rounded to two decimals.\<close>

datatype pyfloat = NaN | Quot int nat | Round2 int nat

text \<open>\<^verbatim>\<open>Series.mean()\<close>: the mean of no value is NaN.\<close>

definition series_mean :: "cell list \<Rightarrow> pyerr + pyfloat" where
  "series_mean xs =
     (if list_all numeric_or_blank xs
      then (let vs = filter is_int xs
            in if vs = [] then Inr NaN else Inr (Quot (sum_list (map cell_int vs)) (length vs)))
      else Inl TypeError)"

text \<open>\<^verbatim>\<open>round(x, 2)\<close>: NaN stays NaN.\<close>

fun py_round2 :: "pyfloat \<Rightarrow> pyfloat" where
  "py_round2 NaN = NaN"
| "py_round2 (Quot s n) = Round2 s n"
| "py_round2 (Round2 s n) = Round2 s n"

subsection \<open>Printing numbers\<close>

definition digit_char :: "nat \<Rightarrow> char" where
  "digit_char d = ''0123456789'' ! d"

function str_nat :: "nat \<Rightarrow> string" where
  "str_nat n = (if n < 10 then [digit_char n] else str_nat (n div 10) @ [digit_char (n mod 10)])"
  by pat_completeness auto
termination
  by (relation "measure id") auto

declare str_nat.simps [simp del]

definition str_int :: "int \<Rightarrow> string" where
  "str_int i = (if i < 0 then CHR ''-'' # str_nat (nat (- i)) else str_nat (nat i))"

text \<open>The format \<^verbatim>\<open>{:,}\<close>: a comma before every group of three digits, counted from
  the right. \<open>group3\<close> works on the digits in reverse.\<close>

fun group3 :: "string \<Rightarrow> string" where
  "group3 (a # b # c # d # ds) = a # b # c # CHR '','' # group3 (d # ds)"
| "group3 ds = ds"

definition commas_nat :: "nat \<Rightarrow> string" where
  "commas_nat n = rev (group3 (rev (str_nat n)))"

definition commas_int :: "int \<Rightarrow> string" where
  "commas_int i = (if i < 0 then CHR ''-'' # commas_nat (nat (- i)) else commas_nat (nat i))"

text \<open>\<^verbatim>\<open>f"{x}"\<close> and \<^verbatim>\<open>f"{x:,}"\<close> of a number.\<close>

fun py_str :: "pynum \<Rightarrow> string" where
  "py_str (PyInt n) = str_int n"
| "py_str (PyFloat n) = str_int n @ ''.0''"

fun py_format_commas :: "pynum \<Rightarrow> string" where
  "py_format_commas (PyInt n) = commas_int n"
| "py_format_commas (PyFloat n) = commas_int n @ ''.0''"

section \<open>The dashboard\<close>

definition EXCEL_FILE :: string where
  "EXCEL_FILE = ''Daily_Metric_Tracking_Sheet (1).xlsx''"

definition WORK_COL :: string where
  "WORK_COL = ''Minutes of Total Video Work Done (min)''"

definition WORDS_COL :: string where
  "WORDS_COL = ''Words Translated (nos.)''"

definition DATE_COL :: string where
  "DATE_COL = ''Date''"

definition PAID_COL :: string where
  "PAID_COL = ''Minutes of Video Localized (min) - Paid''"

definition CLIENTS_COL :: string where
  "CLIENTS_COL = ''Total Number of Clients (nos.) - Platform Users''"

subsection \<open>calculate_metrics\<close>

record metrics =
  avg_minutes_of_work :: pyfloat
  words_translated :: string

text \<open>The dictionary is built entry by entry, so the mean is computed first; nothing
  catches what either entry raises.\<close>

definition calculate_metrics :: "frame \<Rightarrow> pyerr + metrics" where
  "calculate_metrics df =
     (case getitem df WORK_COL of
        Inl e \<Rightarrow> Inl e
      | Inr work \<Rightarrow>
          (case series_mean work of
             Inl e \<Rightarrow> Inl e
           | Inr m \<Rightarrow>
               (case getitem df WORDS_COL of
                  Inl e \<Rightarrow> Inl e
                | Inr words \<Rightarrow>
                    (case series_sum (dtype_of words) words of
                       Inl e \<Rightarrow> Inl e
                     | Inr tot \<Rightarrow>
                         Inr \<lparr>avg_minutes_of_work = py_round2 m,
                              words_translated = py_format_commas tot\<rparr>))))"

subsection \<open>Dates\<close>

text \<open>What \<^verbatim>\<open>pd.to_datetime(..., errors='coerce')\<close> makes of a number or a text is the
  library's business: it is the parameter \<open>P\<close> of the model, \<open>None\<close> standing for NaT.
  A blank is NaT, a timestamp or a date keeps its day.\<close>

type_synonym date_parser = "cell \<Rightarrow> day option"

fun to_datetime :: "date_parser \<Rightarrow> cell \<Rightarrow> day option" where
  "to_datetime P Blank = None"
| "to_datetime P (DateC d) = Some d"
| "to_datetime P (TsC d t) = Some d"
| "to_datetime P c = P c"

text \<open>\<^verbatim>\<open>pd.to_datetime(col, errors='coerce').dt.date\<close>\<close>

definition dt_date :: "date_parser \<Rightarrow> cell list \<Rightarrow> cell list" where
  "dt_date P col = map (\<lambda>c. case to_datetime P c of None \<Rightarrow> Blank | Some d \<Rightarrow> DateC d) col"

text \<open>\<^verbatim>\<open>col == date\<close> on a column that \<^verbatim>\<open>.dt.date\<close> has left (dates and blanks), and
  \<^verbatim>\<open>df[mask][name]\<close> on the cells of the column.\<close>

definition eq_mask :: "cell list \<Rightarrow> day \<Rightarrow> bool list" where
  "eq_mask col d = map (\<lambda>c. c = DateC d) col"

definition select :: "bool list \<Rightarrow> cell list \<Rightarrow> cell list" where
  "select keep col = map snd (filter fst (zip keep col))"

text \<open>\<^verbatim>\<open>df[df['Date'] == d][name].sum()\<close>\<close>

definition filtered_sum :: "frame \<Rightarrow> day \<Rightarrow> string \<Rightarrow> pyerr + pynum" where
  "filtered_sum df d name =
     (case getitem df DATE_COL of
        Inl e \<Rightarrow> Inl e
      | Inr dates \<Rightarrow>
          (case getitem df name of
             Inl e \<Rightarrow> Inl e
           | Inr col \<Rightarrow> series_sum (dtype_of col) (select (eq_mask dates d) col)))"

subsection \<open>get_daily_comparison and get_clients_on_date\<close>

text \<open>\<^verbatim>\<open>st.error(f"<prefix>{e}")\<close>: the prefix and the exception.\<close>

type_synonym report = "string \<times> pyerr"

text \<open>The \<^verbatim>\<open>try\<close> block of \<^verbatim>\<open>get_daily_comparison\<close>: the table as the block leaves it, and
  what the block returns or raises. \<open>now\<close> is the day of \<^verbatim>\<open>datetime.now()\<close>.\<close>

definition daily_try :: "date_parser \<Rightarrow> day \<Rightarrow> frame \<Rightarrow> frame \<times> (pyerr + pynum \<times> pynum)" where
  "daily_try P now df =
     (case getitem df DATE_COL of
        Inl e \<Rightarrow> (df, Inl e)
      | Inr dates \<Rightarrow>
          (let df' = setitem df DATE_COL (dt_date P dates);
               today = now;
               yesterday = today - 1
           in case filtered_sum df' today PAID_COL of
                Inl e \<Rightarrow> (df', Inl e)
              | Inr today_minutes \<Rightarrow>
                  (case filtered_sum df' yesterday PAID_COL of
                     Inl e \<Rightarrow> (df', Inl e)
                   | Inr yesterday_minutes \<Rightarrow> (df', Inr (today_minutes, yesterday_minutes)))))"

text \<open>A calculator returns its value, the table as it leaves it, and what it reported.\<close>

definition get_daily_comparison ::
    "date_parser \<Rightarrow> day \<Rightarrow> frame \<Rightarrow> (pynum \<times> pynum) \<times> frame \<times> report list" where
  "get_daily_comparison P now df =
     (case daily_try P now df of
        (df', Inr r) \<Rightarrow> (r, df', [])
      | (df', Inl e) \<Rightarrow>
          ((PyInt 0, PyInt 0), df', [(''Error calculating daily comparison: '', e)]))"

definition clients_try :: "date_parser \<Rightarrow> frame \<Rightarrow> day \<Rightarrow> frame \<times> (pyerr + pynum)" where
  "clients_try P df date =
     (case getitem df DATE_COL of
        Inl e \<Rightarrow> (df, Inl e)
      | Inr dates \<Rightarrow>
          (let df' = setitem df DATE_COL (dt_date P dates)
           in (df', filtered_sum df' date CLIENTS_COL)))"

definition get_clients_on_date ::
    "date_parser \<Rightarrow> frame \<Rightarrow> day \<Rightarrow> pynum \<times> frame \<times> report list" where
  "get_clients_on_date P df date =
     (case clients_try P df date of
        (df', Inr total_clients) \<Rightarrow> (total_clients, df', [])
      | (df', Inl e) \<Rightarrow> (PyInt 0, df', [(''Error fetching clients onboarded: '', e)]))"

subsection \<open>The file watcher\<close>

text \<open>\<^verbatim>\<open>str.endswith\<close>\<close>

definition endswith :: "string \<Rightarrow> string \<Rightarrow> bool" where
  "endswith s suffix = (length suffix \<le> length s \<and> drop (length s - length suffix) s = suffix)"

text \<open>\<^verbatim>\<open>ExcelFileHandler.on_modified\<close>, with the callback a change of some state.\<close>

definition on_modified :: "('s \<Rightarrow> 's) \<Rightarrow> string \<Rightarrow> 's \<Rightarrow> 's" where
  "on_modified reload_callback src_path s =
     (if endswith src_path EXCEL_FILE then reload_callback s else s)"

text \<open>The events of the watcher library, each with its \<^verbatim>\<open>src_path\<close>. The handler
  overrides \<^verbatim>\<open>on_modified\<close> only, so the base class drops every other event.\<close>

datatype fs_event = Modified string | Created string | Deleted string | Moved string string

fun dispatch :: "('s \<Rightarrow> 's) \<Rightarrow> fs_event \<Rightarrow> 's \<Rightarrow> 's" where
  "dispatch reload_callback (Modified src_path) s = on_modified reload_callback src_path s"
| "dispatch reload_callback ev s = s"

text \<open>\<^verbatim>\<open>watch_file\<close> schedules the handler on the directory \<^verbatim>\<open>"."\<close>, not recursively:
  the events it receives are those of the entries of that directory, whose paths are
  \<^verbatim>\<open>"./" + name\<close>.\<close>

definition in_watched_dir :: "string \<Rightarrow> bool" where
  "in_watched_dir path = (take 2 path = ''./'' \<and> CHR ''/'' \<notin> set (drop 2 path) \<and> drop 2 path \<noteq> [])"

fun src_path :: "fs_event \<Rightarrow> string" where
  "src_path (Modified p) = p"
| "src_path (Created p) = p"
| "src_path (Deleted p) = p"
| "src_path (Moved p q) = p"

definition watch_file :: "('s \<Rightarrow> 's) \<Rightarrow> fs_event \<Rightarrow> 's \<Rightarrow> 's" where
  "watch_file callback ev s = (if in_watched_dir (src_path ev) then dispatch callback ev s else s)"

subsection \<open>load_data\<close>

text \<open>The file system as the loader sees it: at a path there is no file, a file that is
  not a readable workbook, or a workbook with its first sheet and the others.
  \<^verbatim>\<open>pd.read_excel(path, sheet_name=0)\<close> raises on the first two.\<close>

datatype xlsx_file = Garbage | Workbook frame "frame list"

type_synonym filesystem = "string \<Rightarrow> xlsx_file option"

definition read_excel :: "filesystem \<Rightarrow> string \<Rightarrow> pyerr + frame" where
  "read_excel fs path =
     (case fs path of
        None \<Rightarrow> Inl (FileNotFoundError path)
      | Some Garbage \<Rightarrow> Inl ValueError
      | Some (Workbook first others) \<Rightarrow> Inr first)"

text \<open>The body of \<^verbatim>\<open>load_data\<close>: the table and what was reported.\<close>

definition load_data_body :: "filesystem \<Rightarrow> frame \<times> report list" where
  "load_data_body fs =
     (case read_excel fs EXCEL_FILE of
        Inr df \<Rightarrow> (df, [])
      | Inl e \<Rightarrow> (pd_DataFrame, [(''Error loading file: '', e)]))"

text \<open>\<^verbatim>\<open>@st.cache_data(ttl=60)\<close>: one entry (the function has no argument), kept for 60
  seconds from the call that computed it; a call within that time gets a copy of the
  entry, reports included, and the body does not run. Times are in seconds.\<close>

record cache_entry =
  cached_frame :: frame
  cached_reports :: "report list"
  stored_at :: nat

definition load_data :: "filesystem \<Rightarrow> nat \<Rightarrow> cache_entry option \<Rightarrow> (frame \<times> report list) \<times> cache_entry option" where
  "load_data fs now cache =
     (let miss = (case load_data_body fs of
                    (df, reps) \<Rightarrow>
                      ((df, reps), Some \<lparr>cached_frame = df, cached_reports = reps, stored_at = now\<rparr>))
      in case cache of
           None \<Rightarrow> miss
         | Some e \<Rightarrow>
             if now < stored_at e + 60 then ((cached_frame e, cached_reports e), cache) else miss)"

subsection \<open>main\<close>

text \<open>What \<^verbatim>\<open>main\<close> works on: the files, the cache of \<^verbatim>\<open>load_data\<close>, and
  \<^verbatim>\<open>st.session_state['data']\<close> (absent on the first run of a session).\<close>

record world =
  files :: filesystem
  cache :: "cache_entry option"
  session_data :: "frame option"

text \<open>The callback \<^verbatim>\<open>reload_data\<close> that \<^verbatim>\<open>main\<close> hands to the watcher, called at time \<open>now\<close>.\<close>

definition reload_data :: "nat \<Rightarrow> world \<Rightarrow> world" where
  "reload_data now w =
     (case load_data (files w) now (cache w) of
        ((df, reps), c) \<Rightarrow> w\<lparr>cache := c, session_data := Some df\<rparr>)"

text \<open>Comparison, difference and absolute value of the numbers (lines 93 and 104).\<close>

definition py_gt :: "pynum \<Rightarrow> pynum \<Rightarrow> bool" where
  "py_gt a b = (num_val a > num_val b)"

fun py_sub :: "pynum \<Rightarrow> pynum \<Rightarrow> pynum" where
  "py_sub (PyInt a) (PyInt b) = PyInt (a - b)"
| "py_sub a b = PyFloat (num_val a - num_val b)"

fun py_abs :: "pynum \<Rightarrow> pynum" where
  "py_abs (PyInt a) = PyInt \<bar>a\<bar>"
| "py_abs (PyFloat a) = PyFloat \<bar>a\<bar>"

datatype arrow = Up | Down

datatype shown = ShownFloat pyfloat | ShownText string | ShownNum pynum

record tile =
  label :: string
  shown :: shown
  delta :: "(arrow \<times> pynum) option"
  delta_color :: "string option"

text \<open>The local variables of \<^verbatim>\<open>main\<close> after line 91.\<close>

record locals =
  the_metrics :: metrics
  today_minutes :: pynum
  yesterday_minutes :: pynum
  clients_today :: pynum
  client_yesterday :: pynum

text \<open>Lines 93 to 98: the arrow and the colour of the delta.\<close>

definition direction :: "pynum \<Rightarrow> pynum \<Rightarrow> arrow \<times> string" where
  "direction today yesterday =
     (if py_gt today yesterday then (Up, ''normal'') else (Down, ''inverse''))"

text \<open>Line 104: the magnitude shown after the arrow.\<close>

definition magnitude :: "pynum \<Rightarrow> pynum \<Rightarrow> pynum" where
  "magnitude today yesterday = py_abs (py_sub today yesterday)"

text \<open>Lines 101 to 105: the four tiles.\<close>

definition main_tiles :: "locals \<Rightarrow> tile list" where
  "main_tiles l =
     (case direction (today_minutes l) (yesterday_minutes l) of
        (arrow, color) \<Rightarrow>
          [\<lparr>label = ''Avg Minutes of Work'',
            shown = ShownFloat (avg_minutes_of_work (the_metrics l)),
            delta = None, delta_color = None\<rparr>,
           \<lparr>label = ''Total Words Translated'',
            shown = ShownText (words_translated (the_metrics l)),
            delta = None, delta_color = None\<rparr>,
           \<lparr>label = ''Minutes Localized (Paid)'',
            shown = ShownText (py_str (yesterday_minutes l) @ '' min''),
            delta = Some (arrow, magnitude (today_minutes l) (yesterday_minutes l)),
            delta_color = Some color\<rparr>,
           \<lparr>label = ''Total Clients Onboarded'',
            shown = ShownNum (client_yesterday l),
            delta = None, delta_color = None\<rparr>])"

text \<open>The page: the reports shown, the tiles, and the table of the detailed view.\<close>

record view =
  reports :: "report list"
  tiles :: "tile list"
  detailed_data :: frame

text \<open>Lines 86 to 91 on the table of the session: the local variables, the table as the
  three date calculators leave it, and their reports; or the exception of
  \<^verbatim>\<open>calculate_metrics\<close>. \<open>d1\<close>, \<open>d2\<close>, \<open>d3\<close> are the days of the three readings of
  the clock (lines 51, 90 and 91).\<close>

definition main_locals ::
    "date_parser \<Rightarrow> day \<Rightarrow> day \<Rightarrow> day \<Rightarrow> frame \<Rightarrow> pyerr + locals \<times> frame \<times> report list" where
  "main_locals P d1 d2 d3 data0 =
     (case calculate_metrics data0 of
        Inl e \<Rightarrow> Inl e
      | Inr m \<Rightarrow>
          (case get_daily_comparison P d1 data0 of
             ((t, y), data1, r1) \<Rightarrow>
               (case get_clients_on_date P data1 d2 of
                  (ct, data2, r2) \<Rightarrow>
                    (case get_clients_on_date P data2 (d3 - 1) of
                       (cy, data3, r3) \<Rightarrow>
                         Inr (\<lparr>the_metrics = m, today_minutes = t, yesterday_minutes = y,
                               clients_today = ct, client_yesterday = cy\<rparr>,
                              data3, r1 @ r2 @ r3)))))"

text \<open>\<^verbatim>\<open>main\<close>, run at time \<open>now\<close>: the world it leaves, and the page or the exception
  that ends it. Starting the watcher changes nothing in this run.\<close>

definition main ::
    "date_parser \<Rightarrow> nat \<Rightarrow> day \<Rightarrow> day \<Rightarrow> day \<Rightarrow> world \<Rightarrow> world \<times> (pyerr + view)" where
  "main P now d1 d2 d3 w =
     (case (case session_data w of
              Some df \<Rightarrow> ((df, []), cache w)
            | None \<Rightarrow> load_data (files w) now (cache w)) of
        ((data0, r0), c) \<Rightarrow>
          (case main_locals P d1 d2 d3 data0 of
             Inl e \<Rightarrow> (w\<lparr>cache := c, session_data := Some data0\<rparr>, Inl e)
           | Inr (l, data3, rs) \<Rightarrow>
               (w\<lparr>cache := c, session_data := Some data3\<rparr>,
                Inr \<lparr>reports = r0 @ rs, tiles = main_tiles l, detailed_data = data3\<rparr>)))"

section \<open>Notions used to state the properties\<close>








section \<open>Lemmas on tables and dates\<close>

lemma getitem_setitem_same: "getitem (setitem df k c) k = Inr c"
  by (induction df k c rule: setitem.induct) (simp_all add: getitem_def)


lemma map_fst_setitem: "getitem df k = Inr x \<Longrightarrow> map fst (setitem df k c) = map fst df"
  by (induction df k c rule: setitem.induct) (auto simp: getitem_def split: option.splits if_splits)

lemma others_setitem:
  "getitem df k = Inr x \<Longrightarrow> filter (\<lambda>p. fst p \<noteq> k) (setitem df k c) = filter (\<lambda>p. fst p \<noteq> k) df"
  by (induction df k c rule: setitem.induct) (auto simp: getitem_def split: option.splits if_splits)

lemma setitem_setitem: "setitem (setitem df k c) k c' = setitem df k c'"
  by (induction df k c rule: setitem.induct) simp_all

lemma to_datetime_dt_date_cell:
  "to_datetime P (case to_datetime P c of None \<Rightarrow> Blank | Some d \<Rightarrow> DateC d) = to_datetime P c"
  by (cases "to_datetime P c") simp_all

lemma dt_date_idem: "dt_date P (dt_date P col) = dt_date P col"
  by (simp add: dt_date_def to_datetime_dt_date_cell)






lemma cols_distinct:
  "DATE_COL \<noteq> PAID_COL" "DATE_COL \<noteq> CLIENTS_COL" "PAID_COL \<noteq> DATE_COL" "CLIENTS_COL \<noteq> DATE_COL"
  "WORK_COL \<noteq> WORDS_COL"
  by (simp_all add: DATE_COL_def PAID_COL_def CLIENTS_COL_def WORK_COL_def WORDS_COL_def)


section \<open>Lemmas on printed numbers and on the aggregates\<close>














section \<open>calculate_metrics\<close>

text \<open>
  C1 (missing or ill-typed columns). The two date calculators recover: on a table without
  the columns they catch the \<^verbatim>\<open>KeyError\<close>, report it and return zero, leaving the table
  as it was. \<^verbatim>\<open>calculate_metrics\<close> has no \<^verbatim>\<open>try\<close>: on the table with no column (the
  one \<^verbatim>\<open>load_data\<close> returns when the file is missing) it raises \<^verbatim>\<open>KeyError\<close> for the
  work-duration column, on a table without the words-translated column \<^verbatim>\<open>KeyError\<close> for
  that one, on a text in the work-duration column \<^verbatim>\<open>TypeError\<close>; and \<^verbatim>\<open>main\<close>, which
  catches none of them, ends with the exception instead of a page.
\<close>

theorem calculate_metrics_raises_on_missing_column:
  "calculate_metrics pd_DataFrame = Inl (KeyError WORK_COL) \<and>
   calculate_metrics [(WORK_COL, [IntC 30])] = Inl (KeyError WORDS_COL) \<and>
   calculate_metrics [(WORK_COL, [TextC ''n/a'']), (WORDS_COL, [IntC 1])] = Inl TypeError \<and>
   snd (main P now d1 d2 d3 \<lparr>files = Map.empty, cache = None, session_data = None\<rparr>)
     = Inl (KeyError WORK_COL) \<and>
   get_daily_comparison P d1 pd_DataFrame
     = ((PyInt 0, PyInt 0), pd_DataFrame,
        [(''Error calculating daily comparison: '', KeyError DATE_COL)]) \<and>
   get_clients_on_date P pd_DataFrame d1
     = (PyInt 0, pd_DataFrame, [(''Error fetching clients onboarded: '', KeyError DATE_COL)])"
proof -
  have a: "calculate_metrics pd_DataFrame = Inl (KeyError WORK_COL)"
    by (simp add: calculate_metrics_def pd_DataFrame_def getitem_def)
  have b: "calculate_metrics [(WORK_COL, [TextC ''n/a'']), (WORDS_COL, [IntC 1])] = Inl TypeError"
    by (simp add: calculate_metrics_def getitem_def series_mean_def numeric_or_blank_def)
  have w: "calculate_metrics [(WORK_COL, [IntC 30])] = Inl (KeyError WORDS_COL)"
    by (simp add: calculate_metrics_def getitem_def series_mean_def numeric_or_blank_def
        WORK_COL_def WORDS_COL_def)
  have "load_data Map.empty now None
        = ((pd_DataFrame, [(''Error loading file: '', FileNotFoundError EXCEL_FILE)]),
           Some \<lparr>cached_frame = pd_DataFrame,
                 cached_reports = [(''Error loading file: '', FileNotFoundError EXCEL_FILE)],
                 stored_at = now\<rparr>)"
    by (simp add: load_data_def load_data_body_def read_excel_def)
  then have c: "snd (main P now d1 d2 d3 \<lparr>files = Map.empty, cache = None, session_data = None\<rparr>)
     = Inl (KeyError WORK_COL)"
    by (simp add: main_def main_locals_def a)
  have d: "get_daily_comparison P d1 pd_DataFrame
     = ((PyInt 0, PyInt 0), pd_DataFrame,
        [(''Error calculating daily comparison: '', KeyError DATE_COL)])"
    by (simp add: get_daily_comparison_def daily_try_def pd_DataFrame_def getitem_def)
  have e: "get_clients_on_date P pd_DataFrame d1
     = (PyInt 0, pd_DataFrame, [(''Error fetching clients onboarded: '', KeyError DATE_COL)])"
    by (simp add: get_clients_on_date_def clients_try_def pd_DataFrame_def getitem_def)
  from a w b c d e show ?thesis by simp
qed






section \<open>The date calculators\<close>







lemma daily_try_frame:
  "fst (daily_try P now df) =
     (case getitem df DATE_COL of Inl e \<Rightarrow> df | Inr dates \<Rightarrow> setitem df DATE_COL (dt_date P dates))"
  by (simp add: daily_try_def Let_def split: sum.splits)

lemma get_daily_comparison_frame:
  "fst (snd (get_daily_comparison P now df)) =
     (case getitem df DATE_COL of Inl e \<Rightarrow> df | Inr dates \<Rightarrow> setitem df DATE_COL (dt_date P dates))"
proof -
  have "fst (snd (get_daily_comparison P now df)) = fst (daily_try P now df)"
    by (cases "daily_try P now df") (simp add: get_daily_comparison_def split: sum.splits)
  then show ?thesis by (simp add: daily_try_frame)
qed

lemma get_clients_on_date_frame:
  "fst (snd (get_clients_on_date P df d)) =
     (case getitem df DATE_COL of Inl e \<Rightarrow> df | Inr dates \<Rightarrow> setitem df DATE_COL (dt_date P dates))"
  by (simp add: get_clients_on_date_def clients_try_def Let_def split: sum.splits)

lemma coerced_frame_shape:
  assumes "df' = (case getitem df DATE_COL of Inl e \<Rightarrow> df | Inr dates \<Rightarrow> setitem df DATE_COL (dt_date P dates))"
  shows "map fst df' = map fst df \<and>
         filter (\<lambda>kc. fst kc \<noteq> DATE_COL) df' = filter (\<lambda>kc. fst kc \<noteq> DATE_COL) df \<and>
         getitem df' DATE_COL = map_sum id (dt_date P) (getitem df DATE_COL)"
proof (cases "getitem df DATE_COL")
  case (Inl e)
  with assms show ?thesis by simp
next
  case (Inr dates)
  with assms have df': "df' = setitem df DATE_COL (dt_date P dates)" by simp
  show ?thesis
    unfolding df'
    using Inr
    by (simp add: map_fst_setitem others_setitem getitem_setitem_same)
qed

lemma coerced_frame_fixed:
  assumes "df' = (case getitem df DATE_COL of Inl e \<Rightarrow> df | Inr dates \<Rightarrow> setitem df DATE_COL (dt_date P dates))"
  shows "(case getitem df' DATE_COL of Inl e \<Rightarrow> df' | Inr dates \<Rightarrow> setitem df' DATE_COL (dt_date P dates)) = df'"
proof (cases "getitem df DATE_COL")
  case (Inl e)
  with assms show ?thesis by simp
next
  case (Inr dates)
  with assms have df': "df' = setitem df DATE_COL (dt_date P dates)" by simp
  show ?thesis
    unfolding df'
    by (simp add: getitem_setitem_same dt_date_idem setitem_setitem)
qed

lemma calculators_frame:
  assumes "df' = (case getitem df DATE_COL of Inl e \<Rightarrow> df | Inr dates \<Rightarrow> setitem df DATE_COL (dt_date P dates))"
  shows "map fst df' = map fst df \<and>
         filter (\<lambda>kc. fst kc \<noteq> DATE_COL) df' = filter (\<lambda>kc. fst kc \<noteq> DATE_COL) df \<and>
         getitem df' DATE_COL = map_sum id (dt_date P) (getitem df DATE_COL) \<and>
         fst (snd (get_daily_comparison P now' df')) = df' \<and>
         fst (snd (get_clients_on_date P df' d')) = df'"
proof -
  have "fst (snd (get_daily_comparison P now' df')) = df'"
    by (simp only: get_daily_comparison_frame coerced_frame_fixed [OF assms])
  moreover have "fst (snd (get_clients_on_date P df' d')) = df'"
    by (simp only: get_clients_on_date_frame coerced_frame_fixed [OF assms])
  ultimately show ?thesis
    using coerced_frame_shape [OF assms] by simp
qed



text \<open>
  C4 (what the calculators change), as the code has it. \<^verbatim>\<open>calculate_metrics\<close> only reads
  the table. \<^verbatim>\<open>get_daily_comparison\<close> and \<^verbatim>\<open>get_clients_on_date\<close> assign to
  \<^verbatim>\<open>df['Date']\<close>: they leave the names and the order of the columns and every column
  but the date column as they were, and replace the date column, when there is one, by
  its dates (blank where the cell is missing or unreadable); a further call of either
  changes nothing more.
\<close>

theorem calculators_change_only_date_column:
  "(case get_daily_comparison P now df of
      (r, df', reps) \<Rightarrow>
        map fst df' = map fst df \<and>
        filter (\<lambda>kc. fst kc \<noteq> DATE_COL) df' = filter (\<lambda>kc. fst kc \<noteq> DATE_COL) df \<and>
        getitem df' DATE_COL = map_sum id (dt_date P) (getitem df DATE_COL) \<and>
        fst (snd (get_daily_comparison P now' df')) = df' \<and>
        fst (snd (get_clients_on_date P df' d')) = df') \<and>
   (case get_clients_on_date P df d of
      (r, df', reps) \<Rightarrow>
        map fst df' = map fst df \<and>
        filter (\<lambda>kc. fst kc \<noteq> DATE_COL) df' = filter (\<lambda>kc. fst kc \<noteq> DATE_COL) df \<and>
        getitem df' DATE_COL = map_sum id (dt_date P) (getitem df DATE_COL) \<and>
        fst (snd (get_daily_comparison P now' df')) = df' \<and>
        fst (snd (get_clients_on_date P df' d')) = df')"
proof -
  obtain r1 f1 e1 where g1: "get_daily_comparison P now df = (r1, f1, e1)"
    by (cases "get_daily_comparison P now df") auto
  obtain r2 f2 e2 where g2: "get_clients_on_date P df d = (r2, f2, e2)"
    by (cases "get_clients_on_date P df d") auto
  have f1: "f1 = (case getitem df DATE_COL of Inl e \<Rightarrow> df | Inr dates \<Rightarrow> setitem df DATE_COL (dt_date P dates))"
    using get_daily_comparison_frame [of P now df] g1 by simp
  have f2: "f2 = (case getitem df DATE_COL of Inl e \<Rightarrow> df | Inr dates \<Rightarrow> setitem df DATE_COL (dt_date P dates))"
    using get_clients_on_date_frame [of P df d] g2 by simp
  show ?thesis
    unfolding g1 g2 prod.case
    using calculators_frame [OF f1] calculators_frame [OF f2] by blast
qed

text \<open>A table that \<^verbatim>\<open>get_daily_comparison\<close> does not leave as it was: the timestamp
  loses its time of day and the text becomes blank.\<close>

theorem get_daily_comparison_changes_table:
  "fst (snd (get_daily_comparison (\<lambda>c. None) 19000
        [(DATE_COL, [TsC 19000 3600, TextC ''n/a'']), (PAID_COL, [IntC 30, IntC 20])]))
    = [(DATE_COL, [DateC 19000, Blank]), (PAID_COL, [IntC 30, IntC 20])] \<and>
   [(DATE_COL, [DateC 19000, Blank]), (PAID_COL, [IntC 30, IntC 20])]
    \<noteq> [(DATE_COL, [TsC 19000 3600, TextC ''n/a'']), (PAID_COL, [IntC 30, IntC 20])]"
  by (simp add: get_daily_comparison_frame getitem_def dt_date_def cols_distinct)

section \<open>Rows without a date\<close>















section \<open>The file watcher\<close>

lemma endswith_iff: "endswith s suffix \<longleftrightarrow> (\<exists>pre. s = pre @ suffix)"
proof
  assume "endswith s suffix"
  then have "s = take (length s - length suffix) s @ suffix"
    by (metis append_take_drop_id endswith_def)
  then show "\<exists>pre. s = pre @ suffix" ..
next
  assume "\<exists>pre. s = pre @ suffix"
  then show "endswith s suffix"
    by (auto simp: endswith_def)
qed

text \<open>
  C8 (which events reload), as the code has it. The handler reacts to modification
  events only, and compares with \<^verbatim>\<open>endswith\<close>: the callback runs exactly for the
  modification events, among those of the watched directory, whose path ends with the
  name of the workbook. The event of the workbook itself, \<^verbatim>\<open>"./" + EXCEL_FILE\<close>, is one
  of them; so is the event of any other file of the directory whose name ends with the
  workbook's.
\<close>

theorem watcher_calls_back_on_name_suffix:
  "on_modified cb p s = (if \<exists>pre. p = pre @ EXCEL_FILE then cb s else s) \<and>
   watch_file cb (Modified p) s
     = (if in_watched_dir p \<and> (\<exists>pre. p = pre @ EXCEL_FILE) then cb s else s) \<and>
   watch_file cb (Created p) s = s \<and>
   watch_file cb (Deleted p) s = s \<and>
   watch_file cb (Moved p q) s = s \<and>
   watch_file cb (Modified (''./'' @ EXCEL_FILE)) s = cb s"
proof -
  have tracked: "watch_file cb (Modified (''./'' @ EXCEL_FILE)) s = cb s"
    by (simp add: watch_file_def on_modified_def endswith_def in_watched_dir_def EXCEL_FILE_def)
  have others: "on_modified cb p s = (if \<exists>pre. p = pre @ EXCEL_FILE then cb s else s) \<and>
   watch_file cb (Modified p) s
     = (if in_watched_dir p \<and> (\<exists>pre. p = pre @ EXCEL_FILE) then cb s else s) \<and>
   watch_file cb (Created p) s = s \<and>
   watch_file cb (Deleted p) s = s \<and>
   watch_file cb (Moved p q) s = s"
    by (simp add: watch_file_def on_modified_def endswith_iff)
  from others tracked show ?thesis by blast
qed

text \<open>A modification of another file of the directory that reloads: the callback, here
  a counter, has run once.\<close>

theorem watcher_calls_back_for_other_file:
  "watch_file Suc (Modified ''./old_Daily_Metric_Tracking_Sheet (1).xlsx'') 0 = 1 \<and>
   ''./old_Daily_Metric_Tracking_Sheet (1).xlsx'' \<noteq> ''./'' @ EXCEL_FILE"
  by (simp add: watch_file_def on_modified_def endswith_def in_watched_dir_def EXCEL_FILE_def)

section \<open>load_data\<close>

text \<open>
  C6 (load failures). Whenever the read of the workbook raises (the file is missing, or
  is not a readable workbook) in a call that the cache does not answer, \<^verbatim>\<open>load_data\<close>
  returns the table with no column and reports the exception under
  \<^verbatim>\<open>Error loading file:\<close>; it has no other outcome, so nothing is raised to its caller.
  The empty table and the report are what the cache keeps for the next 60 seconds.
\<close>

theorem load_data_failure_gives_empty_table:
  assumes "read_excel fs EXCEL_FILE = Inl e"
    and "case entry of None \<Rightarrow> True | Some ent \<Rightarrow> stored_at ent + 60 \<le> now"
  shows "load_data fs now entry =
           ((pd_DataFrame, [(''Error loading file: '', e)]),
            Some \<lparr>cached_frame = pd_DataFrame,
                  cached_reports = [(''Error loading file: '', e)],
                  stored_at = now\<rparr>)"
  using assms
  by (cases entry) (simp_all add: load_data_def load_data_body_def)

text \<open>A missing file with an empty cache, and an unreadable file with an expired entry.\<close>

theorem load_data_failure_witness:
  "load_data Map.empty 0 None =
           ((pd_DataFrame, [(''Error loading file: '', FileNotFoundError EXCEL_FILE)]),
            Some \<lparr>cached_frame = pd_DataFrame,
                  cached_reports = [(''Error loading file: '', FileNotFoundError EXCEL_FILE)],
                  stored_at = 0\<rparr>) \<and>
   load_data (\<lambda>p. if p = EXCEL_FILE then Some Garbage else None) 100
       (Some \<lparr>cached_frame = [(WORDS_COL, [IntC 1])], cached_reports = [], stored_at = 0\<rparr>) =
           ((pd_DataFrame, [(''Error loading file: '', ValueError)]),
            Some \<lparr>cached_frame = pd_DataFrame,
                  cached_reports = [(''Error loading file: '', ValueError)],
                  stored_at = 100\<rparr>)"
  using load_data_failure_gives_empty_table [where fs = Map.empty and e = "FileNotFoundError EXCEL_FILE" and entry = None and now = 0]
    load_data_failure_gives_empty_table [where fs = "\<lambda>p. if p = EXCEL_FILE then Some Garbage else None" and e = ValueError
        and entry = "Some \<lparr>cached_frame = [(WORDS_COL, [IntC 1])], cached_reports = [], stored_at = 0\<rparr>"
        and now = 100]
  by (simp add: read_excel_def)

text \<open>
  C9 (reloading twice), as the code has it. \<^verbatim>\<open>load_data\<close> is cached for 60 seconds and
  nothing clears the cache when the file changes. If the first of two loads is not
  answered by the cache, or is answered by an entry that holds what the file gives now,
  then two loads of the same files, at whatever times, return the same table and the
  same reports, namely what the body of \<^verbatim>\<open>load_data\<close> gives for those files, and every
  calculator gives the same on both (the date calculators for the same day and target
  date).
\<close>

theorem reload_idempotent_when_cache_current:
  assumes "case entry of
             None \<Rightarrow> True
           | Some ent \<Rightarrow>
               stored_at ent + 60 \<le> now1 \<or>
               (cached_frame ent, cached_reports ent) = load_data_body fs"
  shows "case load_data fs now1 entry of
           (r1, entry1) \<Rightarrow>
             (case load_data fs now2 entry1 of
                (r2, entry2) \<Rightarrow>
                  r1 = r2 \<and> r1 = load_data_body fs \<and>
                  calculate_metrics (fst r1) = calculate_metrics (fst r2) \<and>
                  get_daily_comparison P d (fst r1) = get_daily_comparison P d (fst r2) \<and>
                  get_clients_on_date P (fst r1) d = get_clients_on_date P (fst r2) d)"
proof -
  obtain df reps where body: "load_data_body fs = (df, reps)"
    by (cases "load_data_body fs") auto
  show ?thesis
  proof (cases entry)
    case None
    then show ?thesis
      by (simp add: load_data_def body)
  next
    case (Some ent)
    with assms show ?thesis
      by (auto simp: load_data_def body)
  qed
qed

text \<open>An expired entry of other contents: both loads give the table of the file.\<close>

theorem reload_idempotent_witness:
  "fst (fst (load_data (\<lambda>p. if p = EXCEL_FILE then Some (Workbook [(WORDS_COL, [IntC 2])] []) else None) 100
       (Some \<lparr>cached_frame = [(WORDS_COL, [IntC 1])], cached_reports = [], stored_at = 0\<rparr>)))
     = [(WORDS_COL, [IntC 2])] \<and>
   fst (fst (load_data (\<lambda>p. if p = EXCEL_FILE then Some (Workbook [(WORDS_COL, [IntC 2])] []) else None) 130
      (snd (load_data (\<lambda>p. if p = EXCEL_FILE then Some (Workbook [(WORDS_COL, [IntC 2])] []) else None) 100
       (Some \<lparr>cached_frame = [(WORDS_COL, [IntC 1])], cached_reports = [], stored_at = 0\<rparr>)))))
     = [(WORDS_COL, [IntC 2])]"
  using reload_idempotent_when_cache_current [where fs = "\<lambda>p. if p = EXCEL_FILE then Some (Workbook [(WORDS_COL, [IntC 2])] []) else None"
      and entry = "Some \<lparr>cached_frame = [(WORDS_COL, [IntC 1])], cached_reports = [], stored_at = 0\<rparr>"
      and ?now1.0 = 100 and ?now2.0 = 130 and P = "\<lambda>c. None" and d = 0]
  by (simp add: load_data_def load_data_body_def read_excel_def)

text \<open>Two successive loads of an unchanged file that differ. The file is loaded at second
  0 and changes afterwards; it is then loaded at second 30 and at second 100, unchanged
  in between: the first of the two is answered by the cache with the old table, the
  second by the file with the new one.\<close>

theorem stale_cache_reload_differs:
  "fst (fst (load_data (\<lambda>p. if p = EXCEL_FILE then Some (Workbook [(WORDS_COL, [IntC 2])] []) else None) 30
     (snd (load_data (\<lambda>p. if p = EXCEL_FILE then Some (Workbook [(WORDS_COL, [IntC 1])] []) else None) 0 None))))
     = [(WORDS_COL, [IntC 1])] \<and>
   fst (fst (load_data (\<lambda>p. if p = EXCEL_FILE then Some (Workbook [(WORDS_COL, [IntC 2])] []) else None) 100
     (snd (load_data (\<lambda>p. if p = EXCEL_FILE then Some (Workbook [(WORDS_COL, [IntC 2])] []) else None) 30
     (snd (load_data (\<lambda>p. if p = EXCEL_FILE then Some (Workbook [(WORDS_COL, [IntC 1])] []) else None) 0 None))))))
     = [(WORDS_COL, [IntC 2])] \<and>
   [(WORDS_COL, [IntC 1])] \<noteq> [(WORDS_COL, [IntC 2])]"
  by (simp add: load_data_def load_data_body_def read_excel_def)

section \<open>main\<close>

lemma get_clients_on_date_coerced:
  assumes "df' = (case getitem df DATE_COL of Inl e \<Rightarrow> df | Inr dates \<Rightarrow> setitem df DATE_COL (dt_date P dates))"
  shows "get_clients_on_date P df' d = get_clients_on_date P df d"
proof (cases "getitem df DATE_COL")
  case (Inl e)
  with assms show ?thesis by simp
next
  case (Inr dates)
  with assms have df': "df' = setitem df DATE_COL (dt_date P dates)" by simp
  show ?thesis
    unfolding df'
    by (simp add: get_clients_on_date_def clients_try_def Inr getitem_setitem_same
        dt_date_idem setitem_setitem)
qed

lemma main_locals_values:
  assumes "main_locals P d1 d2 d3 data0 = Inr (l, data3, rs)"
  shows "today_minutes l = fst (fst (get_daily_comparison P d1 data0)) \<and>
         yesterday_minutes l = snd (fst (get_daily_comparison P d1 data0)) \<and>
         clients_today l = fst (get_clients_on_date P data0 d2) \<and>
         client_yesterday l = fst (get_clients_on_date P data0 (d3 - 1)) \<and>
         calculate_metrics data0 = Inr (the_metrics l)"
proof -
  obtain t y data1 r1 where g: "get_daily_comparison P d1 data0 = ((t, y), data1, r1)"
    by (cases "get_daily_comparison P d1 data0") auto
  obtain ct data2 r2 where c1: "get_clients_on_date P data1 d2 = (ct, data2, r2)"
    by (cases "get_clients_on_date P data1 d2") auto
  have d1: "data1 = (case getitem data0 DATE_COL of Inl e \<Rightarrow> data0
                     | Inr dates \<Rightarrow> setitem data0 DATE_COL (dt_date P dates))"
    using get_daily_comparison_frame [of P d1 data0] g by simp
  have d2: "data2 = data1"
    using calculators_frame [OF d1, of d1 d2] c1 by simp
  have k1: "get_clients_on_date P data1 d2 = get_clients_on_date P data0 d2"
    by (rule get_clients_on_date_coerced [OF d1])
  have k2: "get_clients_on_date P data2 (d3 - 1) = get_clients_on_date P data0 (d3 - 1)"
    unfolding d2 by (rule get_clients_on_date_coerced [OF d1])
  from assms show ?thesis
    by (auto simp: main_locals_def g c1 k2 k1 [symmetric] split: sum.splits prod.splits)
qed

lemma main_tiles_shown:
  "map label (main_tiles l) =
     [''Avg Minutes of Work'', ''Total Words Translated'', ''Minutes Localized (Paid)'',
      ''Total Clients Onboarded''] \<and>
   map shown (main_tiles l) =
     [ShownFloat (avg_minutes_of_work (the_metrics l)),
      ShownText (words_translated (the_metrics l)),
      ShownText (py_str (yesterday_minutes l) @ '' min''),
      ShownNum (client_yesterday l)]"
  by (cases "direction (today_minutes l) (yesterday_minutes l)") (simp add: main_tiles_def)

lemma main_tiles_ignore_clients_today: "main_tiles (l\<lparr>clients_today := x\<rparr>) = main_tiles l"
  by (simp add: main_tiles_def)

lemma str_int_20: "str_int 20 = ''20''"
  by code_simp

lemma commas_int_150: "commas_int 150 = ''150''"
  by code_simp

text \<open>
  C10 (what the tiles show). When \<^verbatim>\<open>main\<close> renders the page from the table \<open>data0\<close>
  (the table of the session, or the loaded one on the first run), the tile
  \<^verbatim>\<open>Minutes Localized (Paid)\<close> shows the second component of the daily comparison,
  yesterday's minutes, followed by \<^verbatim>\<open>min\<close>; the tile \<^verbatim>\<open>Total Clients Onboarded\<close> shows
  the clients of the day before the third reading of the clock; and the clients of the
  date read at line 90 are computed and kept in \<^verbatim>\<open>clients_today\<close>, on which no tile
  depends.
\<close>

theorem main_tiles_show_yesterday:
  assumes "main P now d1 d2 d3 w = (w', Inr v)"
    and "data0 = (case session_data w of
                    Some df \<Rightarrow> df
                  | None \<Rightarrow> fst (fst (load_data (files w) now (cache w))))"
  shows "map label (tiles v) =
           [''Avg Minutes of Work'', ''Total Words Translated'', ''Minutes Localized (Paid)'',
            ''Total Clients Onboarded''] \<and>
         shown (tiles v ! 2) =
           ShownText (py_str (snd (fst (get_daily_comparison P d1 data0))) @ '' min'') \<and>
         shown (tiles v ! 3) = ShownNum (fst (get_clients_on_date P data0 (d3 - 1))) \<and>
         (\<exists>l. tiles v = main_tiles l \<and>
              clients_today l = fst (get_clients_on_date P data0 d2) \<and>
              (\<forall>x. main_tiles (l\<lparr>clients_today := x\<rparr>) = tiles v))"
proof -
  obtain r0 c where ld: "(case session_data w of
              Some df \<Rightarrow> ((df, []), cache w)
            | None \<Rightarrow> load_data (files w) now (cache w)) = ((data0, r0), c)"
    using assms(2) by (cases "session_data w"; cases "load_data (files w) now (cache w)") auto
  from assms(1) obtain l data3 rs where
    ml: "main_locals P d1 d2 d3 data0 = Inr (l, data3, rs)" and v: "tiles v = main_tiles l"
    by (auto simp: main_def ld split: sum.splits prod.splits)
  note vals = main_locals_values [OF ml]
  have n: "tiles v ! 2 = main_tiles l ! 2" "tiles v ! 3 = main_tiles l ! 3"
    by (simp_all add: v)
  have s2: "shown (main_tiles l ! 2) = map shown (main_tiles l) ! 2"
    and s3: "shown (main_tiles l ! 3) = map shown (main_tiles l) ! 3"
    using main_tiles_shown [of l] by (simp_all add: main_tiles_def split: prod.splits)
  show ?thesis
    using vals main_tiles_shown [of l]
    by (auto simp: v s2 s3 main_tiles_ignore_clients_today)
qed

text \<open>A table with 30 minutes and 4 clients today, 20 minutes and 6 clients yesterday:
  the tiles show \<^verbatim>\<open>20 min\<close> and 6.\<close>

theorem main_tiles_show_yesterday_witness:
  "case main (\<lambda>c. None) 0 19000 19000 19000
          \<lparr>files = Map.empty, cache = None,
           session_data = Some [(DATE_COL, [TsC 19000 3600, DateC 18999]),
                                (WORK_COL, [IntC 30, IntC 45]),
                                (WORDS_COL, [IntC 100, IntC 50]),
                                (PAID_COL, [IntC 30, IntC 20]),
                                (CLIENTS_COL, [IntC 4, IntC 6])]\<rparr> of
     (w', Inl e) \<Rightarrow> False
   | (w', Inr v) \<Rightarrow>
       shown (tiles v ! 2) = ShownText ''20 min'' \<and>
       delta (tiles v ! 2) = Some (Up, PyInt 10) \<and>
       shown (tiles v ! 3) = ShownNum (PyInt 6)"
proof -
  let ?df = "[(DATE_COL, [TsC 19000 3600, DateC 18999]),
              (WORK_COL, [IntC 30, IntC 45]),
              (WORDS_COL, [IntC 100, IntC 50]),
              (PAID_COL, [IntC 30, IntC 20]),
              (CLIENTS_COL, [IntC 4, IntC 6])]"
  let ?df' = "[(DATE_COL, [DateC 19000, DateC 18999]),
              (WORK_COL, [IntC 30, IntC 45]),
              (WORDS_COL, [IntC 100, IntC 50]),
              (PAID_COL, [IntC 30, IntC 20]),
              (CLIENTS_COL, [IntC 4, IntC 6])]"
  have names: "DATE_COL \<noteq> WORK_COL" "DATE_COL \<noteq> WORDS_COL" "WORK_COL \<noteq> WORDS_COL"
    "WORK_COL \<noteq> PAID_COL" "WORDS_COL \<noteq> PAID_COL" "WORK_COL \<noteq> CLIENTS_COL"
    "WORDS_COL \<noteq> CLIENTS_COL" "PAID_COL \<noteq> CLIENTS_COL" "DATE_COL \<noteq> PAID_COL"
    "DATE_COL \<noteq> CLIENTS_COL"
    by (simp_all add: DATE_COL_def WORK_COL_def WORDS_COL_def PAID_COL_def CLIENTS_COL_def)
  have m: "calculate_metrics ?df = Inr \<lparr>avg_minutes_of_work = Round2 75 2, words_translated = ''150''\<rparr>"
    by (simp add: calculate_metrics_def getitem_def names names [symmetric] series_mean_def
        series_sum_def dtype_of_def numeric_or_blank_def commas_int_150)
  have g: "get_daily_comparison (\<lambda>c. None) 19000 ?df = ((PyInt 30, PyInt 20), ?df', [])"
    by (simp add: get_daily_comparison_def daily_try_def getitem_def filtered_sum_def
        names names [symmetric] dt_date_def eq_mask_def select_def series_sum_def dtype_of_def
        numeric_or_blank_def)
  have c1: "get_clients_on_date (\<lambda>c. None) ?df' 19000 = (PyInt 4, ?df', [])"
    by (simp add: get_clients_on_date_def clients_try_def getitem_def filtered_sum_def
        names names [symmetric] dt_date_def eq_mask_def select_def series_sum_def dtype_of_def
        numeric_or_blank_def)
  have c2: "get_clients_on_date (\<lambda>c. None) ?df' 18999 = (PyInt 6, ?df', [])"
    by (simp add: get_clients_on_date_def clients_try_def getitem_def filtered_sum_def
        names names [symmetric] dt_date_def eq_mask_def select_def series_sum_def dtype_of_def
        numeric_or_blank_def)
  have ev: "main (\<lambda>c. None) 0 19000 19000 19000
          \<lparr>files = Map.empty, cache = None, session_data = Some ?df\<rparr>
        = (\<lparr>files = Map.empty, cache = None, session_data = Some ?df'\<rparr>,
           Inr \<lparr>reports = [],
                tiles = main_tiles \<lparr>the_metrics = \<lparr>avg_minutes_of_work = Round2 75 2, words_translated = ''150''\<rparr>,
                                    today_minutes = PyInt 30, yesterday_minutes = PyInt 20,
                                    clients_today = PyInt 4, client_yesterday = PyInt 6\<rparr>,
                detailed_data = ?df'\<rparr>)"
    by (simp add: main_def main_locals_def m g c1 c2)
  show ?thesis
    using main_tiles_show_yesterday [OF ev, of ?df]
    by (simp add: ev main_tiles_def direction_def py_gt_def magnitude_def str_int_20)
qed

end
